theory Spec2Isabelle
  imports Main
begin

section \<open>JavaScript values, objects and strings\<close>

text \<open>
  The values that reach the models and the middleware: filter criteria, record fields
  and bind values. Numbers are the integers that JavaScript writes in decimal (employee
  counts, salaries, ids, all below \<^verbatim>\<open>1e21\<close> in magnitude); a fraction, and a number
  so large that it is written with an exponent, are outside this model.
\<close>

datatype jsval = JUndefined | JNull | JBool bool | JNum int | JStr string

text \<open>\<^verbatim>\<open>if (v)\<close>: JavaScript's truthiness.\<close>

fun truthy :: "jsval \<Rightarrow> bool" where
  "truthy JUndefined = False"
| "truthy JNull = False"
| "truthy (JBool b) = b"
| "truthy (JNum n) = (n \<noteq> 0)"
| "truthy (JStr s) = (s \<noteq> [])"

text \<open>The decimal numeral of a number, as string concatenation and template literals write it.\<close>

fun show_nat :: "nat \<Rightarrow> string" where
  "show_nat n =
     (if n < 10 then [''0123456789'' ! n]
      else show_nat (n div 10) @ [''0123456789'' ! (n mod 10)])"

declare show_nat.simps [simp del]

definition show_int :: "int \<Rightarrow> string" where
  "show_int i = (if i < 0 then ''-'' @ show_nat (nat (- i)) else show_nat (nat i))"

text \<open>\<^verbatim>\<open>`${v}`\<close>: the string a template literal writes for a value.\<close>

fun js_to_string :: "jsval \<Rightarrow> string" where
  "js_to_string JUndefined = ''undefined''"
| "js_to_string JNull = ''null''"
| "js_to_string (JBool b) = (if b then ''true'' else ''false'')"
| "js_to_string (JNum n) = show_int n"
| "js_to_string (JStr s) = s"

text \<open>
  An object is the list of its own properties in iteration order (the order of
  \<^verbatim>\<open>Object.keys\<close> and \<^verbatim>\<open>Object.values\<close>). \<open>js_get\<close> reads the properties the models
  destructure (\<^verbatim>\<open>handle\<close>, \<^verbatim>\<open>name\<close>, \<^verbatim>\<open>title\<close>, \<^verbatim>\<open>minSalary\<close> and the like), none of
  which an object inherits: one that is not there gives \<^verbatim>\<open>undefined\<close>.
\<close>

type_synonym jsobj = "(string \<times> jsval) list"

definition js_get :: "jsobj \<Rightarrow> string \<Rightarrow> jsval" where
  "js_get obj k = (case map_of obj k of None \<Rightarrow> JUndefined | Some v \<Rightarrow> v)"

text \<open>\<^verbatim>\<open>Array.prototype.join\<close> on an array of strings.\<close>

fun join :: "string \<Rightarrow> string list \<Rightarrow> string" where
  "join sep [] = []"
| "join sep [x] = x"
| "join sep (x # y # ys) = x @ sep @ join sep (y # ys)"

text \<open>\<^verbatim>\<open>Array.prototype.map\<close> with a callback of the element and its index.\<close>

fun map_idx :: "('a \<Rightarrow> nat \<Rightarrow> 'b) \<Rightarrow> nat \<Rightarrow> 'a list \<Rightarrow> 'b list" where
  "map_idx f idx [] = []"
| "map_idx f idx (x # xs) = f x idx # map_idx f (Suc idx) xs"

text \<open>\<^verbatim>\<open>String.prototype.startsWith\<close>.\<close>

definition startsWith :: "string \<Rightarrow> string \<Rightarrow> bool" where
  "startsWith s p = (take (length p) s = p)"

definition newline :: string where
  "newline = [CHR 0x0A]"

section \<open>Errors (expressError)\<close>

text \<open>
  The error classes the sources import from \<^verbatim>\<open>expressError\<close> and throw, each with its
  message. \<open>ExecutionError\<close> is a failure of the database driver, which the models
  let through.
\<close>

datatype error =
    BadRequestError string
  | NotFoundError string
  | UnauthorizedError string
  | ForbiddenError string
  | ExecutionError string

text \<open>
  Modelled from the spec: \<^verbatim>\<open>expressError.js\<close>, where the classes are declared, is not
  among the sources, so the kind of each class is taken from the taxonomy of the
  specification (section 7). The class is all the classification an error carries.
  \<open>BadRequestError\<close> is the class of the empty update payload's failure, which the
  taxonomy names BadInput; \<open>NotFoundError\<close>, \<open>UnauthorizedError\<close> and
  \<open>ForbiddenError\<close> are NotFound, Unauthenticated and Forbidden; the sources import and
  throw no class for Conflict.
\<close>

datatype failure_kind = Conflict | NotFound | BadInput | Unauthenticated | Forbidden | Unclassified

fun failure_kind_of :: "error \<Rightarrow> failure_kind" where
  "failure_kind_of (BadRequestError m) = BadInput"
| "failure_kind_of (NotFoundError m) = NotFound"
| "failure_kind_of (UnauthorizedError m) = Unauthenticated"
| "failure_kind_of (ForbiddenError m) = Forbidden"
| "failure_kind_of (ExecutionError m) = Unclassified"

section \<open>helpers/sql.js\<close>

text \<open>
  The properties an object literal inherits from \<^verbatim>\<open>Object.prototype\<close>, each with the
  text a template literal writes for its value, as Node prints it: a method as
  \<^verbatim>\<open>function name() { [native code] }\<close>, the constructor under its own name
  \<^verbatim>\<open>Object\<close>, and \<^verbatim>\<open>__proto__\<close>, which is the prototype itself, as an object.
\<close>

definition Object_prototype_methods :: "string list" where
  "Object_prototype_methods =
     [''__defineGetter__'', ''__defineSetter__'', ''hasOwnProperty'', ''__lookupGetter__'',
      ''__lookupSetter__'', ''isPrototypeOf'', ''propertyIsEnumerable'', ''toString'',
      ''valueOf'', ''toLocaleString'']"

definition inherited_text :: "string \<Rightarrow> string option" where
  "inherited_text name =
     (if name = ''constructor'' then Some ''function Object() { [native code] }''
      else if name = ''__proto__'' then Some ''[object Object]''
      else if name \<in> set Object_prototype_methods
      then Some (''function '' @ name @ ''() { [native code] }'')
      else None)"

text \<open>
  \<^verbatim>\<open>jsToSql[colName] || colName\<close> as the template literal writes it. An entry of the
  table itself is read first: a translation that is not empty is the column, an empty
  one is falsy and gives the field's own name. A name the table does not hold is read
  from the prototype: an inherited value is truthy and is written as its text. A name
  found nowhere is \<^verbatim>\<open>undefined\<close> and gives the field's own name.
\<close>

definition sql_column :: "(string \<times> string) list \<Rightarrow> string \<Rightarrow> string" where
  "sql_column jsToSql colName =
     (case map_of jsToSql colName of
        Some c \<Rightarrow> if c \<noteq> [] then c else colName
      | None \<Rightarrow>
          (case inherited_text colName of
             Some inherited \<Rightarrow> inherited
           | None \<Rightarrow> colName))"

text \<open>The array \<^verbatim>\<open>cols\<close>: one assignment per key, numbered from its index.\<close>

definition update_cols :: "(string \<times> string) list \<Rightarrow> string list \<Rightarrow> string list" where
  \<open>update_cols jsToSql keys =
     map_idx (\<lambda>colName idx. ''"'' @ sql_column jsToSql colName @ ''"=$'' @ show_nat (idx + 1)) 0 keys\<close>

record update_clause =
  setCols :: string
  vals :: "jsval list"

definition sqlForPartialUpdate :: "jsobj \<Rightarrow> (string \<times> string) list \<Rightarrow> error + update_clause" where
  "sqlForPartialUpdate dataToUpdate jsToSql =
     (let keys = map fst dataToUpdate in
      if length keys = 0 then Inl (BadRequestError ''No data'')
      else
        let cols = update_cols jsToSql keys
        in Inr \<lparr>setCols = join '', '' cols, vals = map snd dataToUpdate\<rparr>)"

section \<open>The persistence executor (db)\<close>

text \<open>
  \<^verbatim>\<open>db.query(text, values)\<close> belongs to the database driver, which is not among the
  sources. The models are written against any executor: a function of the statement
  text, the bind values and the stored state that gives rows or fails, and the stored
  state after it. A connection keeps the stored state and the statements sent so far,
  so that a round-trip is visible in the result.
\<close>

type_synonym row = jsobj

type_synonym 'db executor = "string \<Rightarrow> jsval list \<Rightarrow> 'db \<Rightarrow> (error + row list) \<times> 'db"

record 'db conn =
  store :: 'db
  sent :: "(string \<times> jsval list) list"

definition db_query ::
  "'db executor \<Rightarrow> string \<Rightarrow> jsval list \<Rightarrow> 'db conn \<Rightarrow> (error + row list) \<times> 'db conn" where
  "db_query exec sql binds c =
     (let (res, s) = exec sql binds (store c)
      in (res, \<lparr>store = s, sent = sent c @ [(sql, binds)]\<rparr>))"

text \<open>\<^verbatim>\<open>rows[0]\<close>: the first row, \<^verbatim>\<open>undefined\<close> (\<open>None\<close>) when there is none.\<close>

definition first_row :: "row list \<Rightarrow> row option" where
  "first_row rows = (case rows of [] \<Rightarrow> None | r # _ \<Rightarrow> Some r)"

section \<open>models/company.js\<close>

definition company_duplicate_sql :: string where
  \<open>company_duplicate_sql =
     ''SELECT handle'' @ newline @
     ''           FROM companies'' @ newline @
     ''           WHERE handle = $1''\<close>

definition company_insert_sql :: string where
  \<open>company_insert_sql =
     ''INSERT INTO companies'' @ newline @
     ''           (handle, name, description, num_employees, logo_url)'' @ newline @
     ''           VALUES ($1, $2, $3, $4, $5)'' @ newline @
     ''           RETURNING handle, name, description, num_employees AS "numEmployees", logo_url AS "logoUrl"''\<close>

definition Company_create ::
  "'db executor \<Rightarrow> 'db conn \<Rightarrow> jsobj \<Rightarrow> (error + row option) \<times> 'db conn" where
  "Company_create exec c dat =
     (let handle = js_get dat ''handle'';
          name = js_get dat ''name'';
          description = js_get dat ''description'';
          numEmployees = js_get dat ''numEmployees'';
          logoUrl = js_get dat ''logoUrl'';
          (duplicateCheck, c1) = db_query exec company_duplicate_sql [handle] c
      in (case duplicateCheck of
            Inl e \<Rightarrow> (Inl e, c1)
          | Inr rows \<Rightarrow>
              (if first_row rows \<noteq> None
               then (Inl (BadRequestError (''Duplicate company: '' @ js_to_string handle)), c1)
               else
                 (let (result, c2) =
                        db_query exec company_insert_sql
                          [handle, name, description, numEmployees, logoUrl] c1
                  in (case result of
                        Inl e \<Rightarrow> (Inl e, c2)
                      | Inr rows2 \<Rightarrow> (Inr (first_row rows2), c2))))))"

definition company_select_sql :: string where
  \<open>company_select_sql =
     newline @
     ''    SELECT handle,'' @ newline @
     ''            name,'' @ newline @
     ''            description,'' @ newline @
     ''            num_employees AS "numEmployees",'' @ newline @
     ''            logo_url AS "logoUrl"'' @ newline @
     ''        FROM companies''\<close>

text \<open>
  \<open>Company_findAll_sql\<close> is \<^verbatim>\<open>Company.findAll\<close> up to its call of the executor: the
  statement text and the bind values it has built by then.
\<close>

definition Company_findAll_sql :: "jsobj \<Rightarrow> string \<times> jsval list" where
  "Company_findAll_sql filters =
     (let name = js_get filters ''name'';
          minEmployees = js_get filters ''minEmployees'';
          maxEmployees = js_get filters ''maxEmployees'';
          query = company_select_sql;
          values = [];
          (query, values) =
            (if truthy name
             then (query @ '' WHERE LOWER(name) LIKE LOWER($1)'',
                   values @ [JStr (''%'' @ js_to_string name @ ''%'')])
             else (query, values));
          (query, values) =
            (if truthy minEmployees
             then ((if length values = 0
                    then query @ '' WHERE num_employees >= $2''
                    else query @ '' AND num_employees >= $'' @ show_nat (length values + 1)),
                   values @ [minEmployees])
             else (query, values));
          (query, values) =
            (if truthy maxEmployees
             then ((if length values = 0
                    then query @ '' WHERE num_employees <=$2''
                    else query @ '' AND num_employees <= $'' @ show_nat (length values + 1)),
                   values @ [maxEmployees])
             else (query, values));
          query = query @ '' ORDER BY name''
      in (query, values))"

definition Company_findAll ::
  "'db executor \<Rightarrow> 'db conn \<Rightarrow> jsobj \<Rightarrow> (error + row list) \<times> 'db conn" where
  "Company_findAll exec c filters =
     (let (query, values) = Company_findAll_sql filters
      in db_query exec query values c)"

definition company_jsToSql :: "(string \<times> string) list" where
  "company_jsToSql = [(''numEmployees'', ''num_employees''), (''logoUrl'', ''logo_url'')]"

text \<open>\<^verbatim>\<open>querySql\<close> of \<^verbatim>\<open>Company.update\<close>, from the assignments and the key's placeholder.\<close>

definition company_update_sql :: "string \<Rightarrow> string \<Rightarrow> string" where
  \<open>company_update_sql setCols' handleVarIdx =
     ''UPDATE companies '' @ newline @
     ''                      SET '' @ setCols' @ '' '' @ newline @
     ''                      WHERE handle = '' @ handleVarIdx @ '' '' @ newline @
     ''                      RETURNING handle, '' @ newline @
     ''                                name, '' @ newline @
     ''                                description, '' @ newline @
     ''                                num_employees AS "numEmployees", '' @ newline @
     ''                                logo_url AS "logoUrl"''\<close>

definition Company_update ::
  "'db executor \<Rightarrow> 'db conn \<Rightarrow> jsval \<Rightarrow> jsobj \<Rightarrow> (error + row) \<times> 'db conn" where
  "Company_update exec c handle dat =
     (case sqlForPartialUpdate dat company_jsToSql of
        Inl e \<Rightarrow> (Inl e, c)
      | Inr r \<Rightarrow>
          (let handleVarIdx = ''$'' @ show_nat (length (vals r) + 1);
               querySql = company_update_sql (setCols r) handleVarIdx;
               (result, c1) = db_query exec querySql (vals r @ [handle]) c
           in (case result of
                 Inl e \<Rightarrow> (Inl e, c1)
               | Inr rows \<Rightarrow>
                   (case first_row rows of
                      None \<Rightarrow> (Inl (NotFoundError (''No company: '' @ js_to_string handle)), c1)
                    | Some company \<Rightarrow> (Inr company, c1)))))"

section \<open>models/job.js\<close>

definition job_duplicate_sql :: string where
  \<open>job_duplicate_sql =
     ''SELECT id'' @ newline @
     ''                FROM jobs'' @ newline @
     ''                WHERE title = $1 AND company_handle = $2''\<close>

definition job_insert_sql :: string where
  \<open>job_insert_sql =
     ''INSERT INTO jobs'' @ newline @
     ''                (title, salary, equity, company_handle)'' @ newline @
     ''                VALUES ($1, $2, $3, $4)'' @ newline @
     ''            RETURNING id, title, salary, equity, company_handle AS "companyHandle"''\<close>

definition Job_create ::
  "'db executor \<Rightarrow> 'db conn \<Rightarrow> jsobj \<Rightarrow> (error + row option) \<times> 'db conn" where
  "Job_create exec c dat =
     (let title = js_get dat ''title'';
          salary = js_get dat ''salary'';
          equity = js_get dat ''equity'';
          companyHandle = js_get dat ''companyHandle'';
          (duplicateCheck, c1) = db_query exec job_duplicate_sql [title, companyHandle] c
      in (case duplicateCheck of
            Inl e \<Rightarrow> (Inl e, c1)
          | Inr rows \<Rightarrow>
              (if first_row rows \<noteq> None
               then (Inl (BadRequestError (''Duplicate job: '' @ js_to_string title)), c1)
               else
                 (let (result, c2) =
                        db_query exec job_insert_sql [title, salary, equity, companyHandle] c1
                  in (case result of
                        Inl e \<Rightarrow> (Inl e, c2)
                      | Inr rows2 \<Rightarrow> (Inr (first_row rows2), c2))))))"

definition job_select_sql :: string where
  \<open>job_select_sql =
     newline @
     ''      SELECT id,'' @ newline @
     ''             title,'' @ newline @
     ''             salary,'' @ newline @
     ''             equity,'' @ newline @
     ''             company_handle AS "companyHandle"'' @ newline @
     ''      FROM jobs''\<close>

definition Job_findAll_sql :: "jsobj \<Rightarrow> string \<times> jsval list" where
  "Job_findAll_sql filters =
     (let title = js_get filters ''title'';
          minSalary = js_get filters ''minSalary'';
          hasEquity = js_get filters ''hasEquity'';
          values = [];
          query = job_select_sql;
          (query, values) =
            (if truthy title
             then (query @ '' WHERE LOWER(title) LIKE LOWER($1)'',
                   values @ [JStr (''%'' @ js_to_string title @ ''%'')])
             else (query, values));
          (query, values) =
            (if minSalary \<noteq> JUndefined
             then ((if length values = 0
                    then query @ '' WHERE salary >= $1''
                    else query @ '' AND salary >= $'' @ show_nat (length values + 1)),
                   values @ [minSalary])
             else (query, values));
          (query, values) =
            (if hasEquity \<noteq> JUndefined
             then ((if length values = 0
                    then query @ '' WHERE equity > 0''
                    else query @ '' AND equity > 0''),
                   values @ [hasEquity])
             else (query, values));
          query = query @ '' ORDER BY title''
      in (query, values))"

definition Job_findAll ::
  "'db executor \<Rightarrow> 'db conn \<Rightarrow> jsobj \<Rightarrow> (error + row list) \<times> 'db conn" where
  "Job_findAll exec c filters =
     (let (query, values) = Job_findAll_sql filters
      in db_query exec query values c)"

definition job_update_sql :: "string \<Rightarrow> string \<Rightarrow> string" where
  \<open>job_update_sql setCols' idVarIdx =
     newline @
     ''      UPDATE jobs '' @ newline @
     ''      SET '' @ setCols' @ newline @
     ''      WHERE id = '' @ idVarIdx @ newline @
     ''      RETURNING id, title, salary, equity, company_handle AS "companyHandle"''\<close>

definition Job_update ::
  "'db executor \<Rightarrow> 'db conn \<Rightarrow> jsval \<Rightarrow> jsobj \<Rightarrow> (error + row) \<times> 'db conn" where
  "Job_update exec c ident dat =
     (case sqlForPartialUpdate dat [] of
        Inl e \<Rightarrow> (Inl e, c)
      | Inr r \<Rightarrow>
          (let idVarIdx = ''$'' @ show_nat (length (vals r) + 1);
               querySql = job_update_sql (setCols r) idVarIdx;
               (result, c1) = db_query exec querySql (vals r @ [ident]) c
           in (case result of
                 Inl e \<Rightarrow> (Inl e, c1)
               | Inr rows \<Rightarrow>
                   (case first_row rows of
                      None \<Rightarrow> (Inl (NotFoundError (''No job with ID: '' @ js_to_string ident)), c1)
                    | Some job \<Rightarrow> (Inr job, c1)))))"

section \<open>middleware/auth.js\<close>

text \<open>
  \<open>res.locals.user\<close> is the payload of a verified token: a username and the admin
  flag; \<open>None\<close> when no valid token came with the request. Of the request the
  middleware reads the method, \<^verbatim>\<open>originalUrl\<close> and \<^verbatim>\<open>params.username\<close>, which is
  \<^verbatim>\<open>undefined\<close> (\<open>None\<close>) on a route with no \<^verbatim>\<open>:username\<close> segment.
\<close>

record user =
  username :: string
  isAdmin :: bool

record request =
  req_method :: string
  originalUrl :: string
  params_username :: "string option"

text \<open>
  A middleware answers by calling the continuation \<^verbatim>\<open>next\<close>: with no argument to let
  the request through, with an error to refuse it. Its result here is the list of these
  calls in the order they are made. The continuation itself does not throw.
\<close>

datatype next_call = Next | NextErr error

definition companyActionRoutes :: "(string \<times> string) list" where
  "companyActionRoutes =
     [(''POST'', ''/''), (''PATCH'', ''/:handle''), (''DELETE'', ''/:handle'')]"

definition userActionRoutes :: "(string \<times> string) list" where
  "userActionRoutes =
     [(''POST'', ''/user''), (''GET'', ''/users''), (''GET'', ''/:username''),
      (''PATCH'', ''/:username''), (''DELETE'', ''/:username'')]"

definition isAdminActionRoute :: "request \<Rightarrow> bool" where
  "isAdminActionRoute req =
     list_ex (\<lambda>(route_method, route_path).
                route_method = req_method req \<and> startsWith (originalUrl req) route_path)
       (companyActionRoutes @ userActionRoutes)"

definition ensureAuthenticatedAsSelf :: "request \<Rightarrow> user option \<Rightarrow> next_call list" where
  "ensureAuthenticatedAsSelf req locals_user =
     (case locals_user of
        None \<Rightarrow> [NextErr (UnauthorizedError ''Authentication required'')]
      | Some u \<Rightarrow>
          (let authenticatedUsername = Some (username u);
               requestedUsername = params_username req
           in if authenticatedUsername \<noteq> requestedUsername
              then [NextErr (ForbiddenError ''You do not have permission to perform this action.'')]
              else [Next]))"

definition ensureLoggedIn :: "request \<Rightarrow> user option \<Rightarrow> next_call list" where
  "ensureLoggedIn req locals_user =
     (case locals_user of
        None \<Rightarrow> [NextErr (UnauthorizedError ''Authentication required'')]
      | Some u \<Rightarrow>
          if isAdminActionRoute req
          then (if \<not> isAdmin u
                then [NextErr (ForbiddenError ''Admin privileges required'')]
                else [Next])
          else ensureAuthenticatedAsSelf req locals_user @ [Next])"

text \<open>
  The decision of a middleware is its first call of the continuation: on
  \<^verbatim>\<open>next(err)\<close> Express passes the route's handler by and goes to the error handlers, on
  \<^verbatim>\<open>next()\<close> it runs the handler. \<open>None\<close> stands for a middleware that never calls it.
\<close>

definition decision :: "next_call list \<Rightarrow> next_call option" where
  "decision calls = (case calls of [] \<Rightarrow> None | call # _ \<Rightarrow> Some call)"

section \<open>Reading a statement text\<close>

text \<open>
  The positional parameters a statement text refers to, in the order it writes them:
  every \<^verbatim>\<open>$\<close> that digits follow, read as the decimal number they spell.
\<close>

definition is_digit :: "char \<Rightarrow> bool" where
  "is_digit ch = (ch \<in> set ''0123456789'')"

definition digit_val :: "char \<Rightarrow> nat" where
  "digit_val ch = length (takeWhile (\<lambda>d. d \<noteq> ch) ''0123456789'')"

definition read_nat :: "string \<Rightarrow> nat" where
  "read_nat ds = foldl (\<lambda>n ch. 10 * n + digit_val ch) 0 ds"

fun placeholders :: "string \<Rightarrow> nat list" where
  "placeholders [] = []"
| "placeholders (ch # cs) =
     (if ch = CHR ''$'' \<and> takeWhile is_digit cs \<noteq> []
      then read_nat (takeWhile is_digit cs) # placeholders cs
      else placeholders cs)"

section \<open>An executor over tables in memory\<close>

text \<open>
  One executor to run the models on: it knows the four statements of
  \<^verbatim>\<open>Company.create\<close> and \<^verbatim>\<open>Job.create\<close> and keeps the two tables as lists of rows.
  Any other statement fails.
\<close>

record tables =
  companies :: "row list"
  jobs :: "row list"

definition mem_exec :: "tables executor" where
  "mem_exec sql binds t =
     (if sql = company_duplicate_sql then
        (case binds of
           [h] \<Rightarrow> (Inr (map (\<lambda>r. [(''handle'', js_get r ''handle'')])
                          (filter (\<lambda>r. js_get r ''handle'' = h) (companies t))), t)
         | _ \<Rightarrow> (Inl (ExecutionError ''bind values''), t))
      else if sql = company_insert_sql then
        (case binds of
           [h, n, d, e, l] \<Rightarrow>
             (let r = [(''handle'', h), (''name'', n), (''description'', d),
                       (''numEmployees'', e), (''logoUrl'', l)]
              in (Inr [r], t\<lparr>companies := companies t @ [r]\<rparr>))
         | _ \<Rightarrow> (Inl (ExecutionError ''bind values''), t))
      else if sql = job_duplicate_sql then
        (case binds of
           [ti, ch] \<Rightarrow> (Inr (map (\<lambda>r. [(''id'', js_get r ''id'')])
                          (filter (\<lambda>r. js_get r ''title'' = ti \<and> js_get r ''companyHandle'' = ch)
                             (jobs t))), t)
         | _ \<Rightarrow> (Inl (ExecutionError ''bind values''), t))
      else if sql = job_insert_sql then
        (case binds of
           [ti, sa, eq, ch] \<Rightarrow>
             (let r = [(''id'', JNum (int (length (jobs t)) + 1)), (''title'', ti),
                       (''salary'', sa), (''equity'', eq), (''companyHandle'', ch)]
              in (Inr [r], t\<lparr>jobs := jobs t @ [r]\<rparr>))
         | _ \<Rightarrow> (Inl (ExecutionError ''bind values''), t))
      else (Inl (ExecutionError ''statement''), t))"


text \<open>A connection to one company and one job of it, nothing sent yet.\<close>

definition example_conn :: "tables conn" where
  "example_conn =
     \<lparr>store = \<lparr>companies = [[(''handle'', JStr ''c1''), (''name'', JStr ''C1'')]],
                jobs = [[(''id'', JNum 1), (''title'', JStr ''j1''),
                         (''companyHandle'', JStr ''c1'')]]\<rparr>,
      sent = []\<rparr>"

section \<open>Arrays, numerals and the parameters of a statement\<close>


























lemma inherited_names:
  "{name. inherited_text name \<noteq> None} =
     set [''constructor'', ''__defineGetter__'', ''__defineSetter__'', ''hasOwnProperty'',
          ''__lookupGetter__'', ''__lookupSetter__'', ''isPrototypeOf'',
          ''propertyIsEnumerable'', ''toString'', ''valueOf'', ''__proto__'',
          ''toLocaleString'']"
  by (auto simp add: inherited_text_def Object_prototype_methods_def)

lemma sql_column_inherited:
  "map (sql_column [])
         [''constructor'',
          ''__defineGetter__'',
          ''__defineSetter__'',
          ''hasOwnProperty'',
          ''__lookupGetter__'',
          ''__lookupSetter__'',
          ''isPrototypeOf'',
          ''propertyIsEnumerable'',
          ''toString'',
          ''valueOf'',
          ''__proto__'',
          ''toLocaleString''] =
       [''function Object() { [native code] }'',
        ''function __defineGetter__() { [native code] }'',
        ''function __defineSetter__() { [native code] }'',
        ''function hasOwnProperty() { [native code] }'',
        ''function __lookupGetter__() { [native code] }'',
        ''function __lookupSetter__() { [native code] }'',
        ''function isPrototypeOf() { [native code] }'',
        ''function propertyIsEnumerable() { [native code] }'',
        ''function toString() { [native code] }'',
        ''function valueOf() { [native code] }'',
        ''[object Object]'',
        ''function toLocaleString() { [native code] }'']"
  by (simp add: sql_column_def inherited_text_def Object_prototype_methods_def)







lemmas eval_sql = js_get_def newline_def is_digit_def read_nat_def digit_val_def

lemma isAdminActionRoute_POST:
  "req_method req = ''POST'' \<Longrightarrow> startsWith (originalUrl req) ''/'' \<Longrightarrow> isAdminActionRoute req"
  by (simp add: isAdminActionRoute_def companyActionRoutes_def)

lemmas eval_route = isAdminActionRoute_def companyActionRoutes_def userActionRoutes_def startsWith_def

lemma mem_exec_company_duplicate:
  "mem_exec company_duplicate_sql [JStr ''c1''] (store example_conn) =
     (Inr [[(''handle'', JStr ''c1'')]], store example_conn)"
  by (simp add: mem_exec_def example_conn_def js_get_def)

lemma mem_exec_job_duplicate:
  "mem_exec job_duplicate_sql [JStr ''j1'', JStr ''c1''] (store example_conn) =
     (Inr [[(''id'', JNum 1)]], store example_conn)"
  by (simp add: mem_exec_def example_conn_def js_get_def job_duplicate_sql_def
        company_duplicate_sql_def company_insert_sql_def)

section \<open>The filter clauses of findAll\<close>

text \<open>
  C1. The claim: every placeholder that \<^verbatim>\<open>Company.findAll\<close> and \<^verbatim>\<open>Job.findAll\<close> write is
  the length of the bind values at that moment plus one, so the parameters of the
  statement are 1..n in order, also when the name filter is absent and only
  \<^verbatim>\<open>minEmployees\<close> or only \<^verbatim>\<open>maxEmployees\<close> is given. \<^verbatim>\<open>Company.findAll\<close> does not: with
  no bind value yet, both branches write the constant \<^verbatim>\<open>$2\<close>. With \<^verbatim>\<open>minEmployees\<close> alone
  (and likewise \<^verbatim>\<open>maxEmployees\<close> alone) the statement refers to parameter 2 and the bind
  list holds one value.
\<close>

theorem Company_findAll_lone_bound_writes_2:
  "Company_findAll_sql [(''minEmployees'', JNum 5)] =
     (company_select_sql @ '' WHERE num_employees >= $2 ORDER BY name'', [JNum 5])
   \<and> placeholders (fst (Company_findAll_sql [(''minEmployees'', JNum 5)])) = [2]
   \<and> Company_findAll_sql [(''maxEmployees'', JNum 5)] =
     (company_select_sql @ '' WHERE num_employees <=$2 ORDER BY name'', [JNum 5])
   \<and> placeholders (fst (Company_findAll_sql [(''maxEmployees'', JNum 5)])) = [2]"
  by (simp add: Company_findAll_sql_def company_select_sql_def eval_sql)

text \<open>
  C2. The claim: with \<^verbatim>\<open>hasEquity\<close> present \<^verbatim>\<open>Job.findAll\<close> writes \<^verbatim>\<open>equity > 0\<close> with no
  parameter and adds nothing to the bind values, so the statement has as many
  parameters as there are bind values. The predicate is written as claimed, but the
  code also pushes the value of \<^verbatim>\<open>hasEquity\<close>: the statement of
  \<^verbatim>\<open>{hasEquity: true}\<close> has no parameter and one bind value.
\<close>

theorem Job_findAll_hasEquity_binds_a_value:
  "Job_findAll_sql [(''hasEquity'', JBool True)] =
     (job_select_sql @ '' WHERE equity > 0 ORDER BY title'', [JBool True])
   \<and> placeholders (fst (Job_findAll_sql [(''hasEquity'', JBool True)])) = []
   \<and> length (snd (Job_findAll_sql [(''hasEquity'', JBool True)])) = 1"
  by (simp add: Job_findAll_sql_def job_select_sql_def eval_sql)

text \<open>
  C5. The claim: \<^verbatim>\<open>Company.findAll\<close> with \<^verbatim>\<open>minEmployees = 50\<close> and
  \<^verbatim>\<open>maxEmployees = 10\<close> gives the empty sequence and no error. The statement the code
  sends compares both bounds with parameter 2, the second bind value 10, and never
  refers to parameter 1, the bind value 50: it does not ask for the empty range.
\<close>

theorem Company_findAll_inconsistent_range_statement:
  "Company_findAll_sql [(''minEmployees'', JNum 50), (''maxEmployees'', JNum 10)] =
     (company_select_sql @ '' WHERE num_employees >= $2 AND num_employees <= $2 ORDER BY name'',
      [JNum 50, JNum 10])
   \<and> placeholders (fst (Company_findAll_sql [(''minEmployees'', JNum 50), (''maxEmployees'', JNum 10)]))
       = [2, 2]"
  by (simp add: Company_findAll_sql_def company_select_sql_def eval_sql show_nat.simps)

section \<open>The authorization decisions\<close>

text \<open>
  C3. The decision of \<^verbatim>\<open>ensureLoggedIn\<close> for every request and principal: with no
  principal it refuses with the Unauthorized error; a principal that is not an admin is
  refused with the Forbidden error on an admin-only route; on any other route it is let
  through when \<^verbatim>\<open>params.username\<close> is its own username and refused with the Forbidden
  error when it is not. The decision is the first call of the continuation; what the
  middleware calls after it is the subject of C10.
\<close>

theorem ensureLoggedIn_decision_table:
  "decision (ensureLoggedIn req None) = Some (NextErr (UnauthorizedError ''Authentication required''))
   \<and> (\<not> isAdmin u \<and> isAdminActionRoute req \<longrightarrow>
        decision (ensureLoggedIn req (Some u)) =
          Some (NextErr (ForbiddenError ''Admin privileges required'')))
   \<and> (\<not> isAdmin u \<and> \<not> isAdminActionRoute req \<and> params_username req = Some (username u) \<longrightarrow>
        decision (ensureLoggedIn req (Some u)) = Some Next)
   \<and> (\<not> isAdmin u \<and> \<not> isAdminActionRoute req \<and> params_username req \<noteq> Some (username u) \<longrightarrow>
        decision (ensureLoggedIn req (Some u)) =
          Some (NextErr (ForbiddenError ''You do not have permission to perform this action.'')))"
  by (auto simp add: decision_def ensureLoggedIn_def ensureAuthenticatedAsSelf_def)

theorem ensureLoggedIn_decision_table_witness:
  "decision (ensureLoggedIn \<lparr>req_method = ''DELETE'', originalUrl = ''/jobs/1'', params_username = None\<rparr> None)
     = Some (NextErr (UnauthorizedError ''Authentication required''))
   \<and> decision (ensureLoggedIn \<lparr>req_method = ''GET'', originalUrl = ''/users'', params_username = None\<rparr>
        (Some \<lparr>username = ''u1'', isAdmin = False\<rparr>))
     = Some (NextErr (ForbiddenError ''Admin privileges required''))
   \<and> decision (ensureLoggedIn \<lparr>req_method = ''PATCH'', originalUrl = ''/users/u1'', params_username = Some ''u1''\<rparr>
        (Some \<lparr>username = ''u1'', isAdmin = False\<rparr>))
     = Some Next
   \<and> decision (ensureLoggedIn \<lparr>req_method = ''PATCH'', originalUrl = ''/users/u2'', params_username = Some ''u2''\<rparr>
        (Some \<lparr>username = ''u1'', isAdmin = False\<rparr>))
     = Some (NextErr (ForbiddenError ''You do not have permission to perform this action.''))"
proof -
  let ?u = "\<lparr>username = ''u1'', isAdmin = False\<rparr>"
  have a: "isAdminActionRoute \<lparr>req_method = ''GET'', originalUrl = ''/users'', params_username = None\<rparr>"
    by (simp add: eval_route)
  have b: "\<not> isAdminActionRoute \<lparr>req_method = ''PATCH'', originalUrl = ''/users/u1'', params_username = Some ''u1''\<rparr>"
    by (simp add: eval_route)
  have c: "\<not> isAdminActionRoute \<lparr>req_method = ''PATCH'', originalUrl = ''/users/u2'', params_username = Some ''u2''\<rparr>"
    by (simp add: eval_route)
  show ?thesis
    using a b c
      ensureLoggedIn_decision_table [of "\<lparr>req_method = ''DELETE'', originalUrl = ''/jobs/1'', params_username = None\<rparr>" ?u]
      ensureLoggedIn_decision_table [of "\<lparr>req_method = ''GET'', originalUrl = ''/users'', params_username = None\<rparr>" ?u]
      ensureLoggedIn_decision_table [of "\<lparr>req_method = ''PATCH'', originalUrl = ''/users/u1'', params_username = Some ''u1''\<rparr>" ?u]
      ensureLoggedIn_decision_table [of "\<lparr>req_method = ''PATCH'', originalUrl = ''/users/u2'', params_username = Some ''u2''\<rparr>" ?u]
    by simp
qed

text \<open>
  C4. A request with a principal, on a route that is not admin-only and has no
  \<^verbatim>\<open>:username\<close> segment: \<^verbatim>\<open>ensureAuthenticatedAsSelf\<close> compares the principal's username
  with \<^verbatim>\<open>undefined\<close>, they differ, and the decision is the Forbidden error. It holds for
  an admin as well.
\<close>

theorem missing_username_segment_is_forbidden:
  "\<not> isAdminActionRoute req \<and> params_username req = None \<longrightarrow>
     ensureAuthenticatedAsSelf req (Some u) =
       [NextErr (ForbiddenError ''You do not have permission to perform this action.'')]
     \<and> decision (ensureLoggedIn req (Some u)) =
         Some (NextErr (ForbiddenError ''You do not have permission to perform this action.''))"
  by (simp add: decision_def ensureLoggedIn_def ensureAuthenticatedAsSelf_def)

theorem missing_username_segment_is_forbidden_witness:
  "decision (ensureLoggedIn \<lparr>req_method = ''PATCH'', originalUrl = ''/jobs/1'', params_username = None\<rparr>
        (Some \<lparr>username = ''admin'', isAdmin = True\<rparr>))
     = Some (NextErr (ForbiddenError ''You do not have permission to perform this action.''))"
proof -
  have a: "\<not> isAdminActionRoute \<lparr>req_method = ''PATCH'', originalUrl = ''/jobs/1'', params_username = None\<rparr>"
    by (simp add: eval_route)
  show ?thesis
    using a missing_username_segment_is_forbidden
      [of "\<lparr>req_method = ''PATCH'', originalUrl = ''/jobs/1'', params_username = None\<rparr>"
          "\<lparr>username = ''admin'', isAdmin = True\<rparr>"]
    by simp
qed

text \<open>
  C9. Every POST request whose path starts with a slash is an admin-only action: the
  entry \<^verbatim>\<open>{ method: "POST", path: "/" }\<close> is matched as a prefix. So
  \<^verbatim>\<open>ensureLoggedIn\<close> refuses every such request of a principal that is not an admin with
  the Forbidden error, in one call of the continuation, whatever the path.
\<close>

theorem every_POST_is_admin_only:
  "req_method req = ''POST'' \<and> startsWith (originalUrl req) ''/'' \<longrightarrow>
     isAdminActionRoute req
     \<and> (\<not> isAdmin u \<longrightarrow>
          ensureLoggedIn req (Some u) = [NextErr (ForbiddenError ''Admin privileges required'')])"
  by (simp add: ensureLoggedIn_def isAdminActionRoute_POST)

theorem every_POST_is_admin_only_witness:
  "isAdminActionRoute \<lparr>req_method = ''POST'', originalUrl = ''/jobs'', params_username = None\<rparr>
   \<and> ensureLoggedIn \<lparr>req_method = ''POST'', originalUrl = ''/jobs'', params_username = None\<rparr>
         (Some \<lparr>username = ''u1'', isAdmin = False\<rparr>)
       = [NextErr (ForbiddenError ''Admin privileges required'')]"
  using every_POST_is_admin_only
    [of "\<lparr>req_method = ''POST'', originalUrl = ''/jobs'', params_username = None\<rparr>"
        "\<lparr>username = ''u1'', isAdmin = False\<rparr>"]
  by (simp add: startsWith_def)

text \<open>
  C10. With a principal, on a route that is not admin-only, \<^verbatim>\<open>ensureLoggedIn\<close> calls the
  continuation twice: \<^verbatim>\<open>ensureAuthenticatedAsSelf\<close> calls it (with the Forbidden error
  when the usernames differ, with no error when they are equal), and \<^verbatim>\<open>ensureLoggedIn\<close>
  then calls it again with no error.
\<close>

theorem self_check_path_calls_next_twice:
  "\<not> isAdminActionRoute req \<longrightarrow>
     ensureAuthenticatedAsSelf req (Some u) =
       [if params_username req = Some (username u) then Next
        else NextErr (ForbiddenError ''You do not have permission to perform this action.'')]
     \<and> ensureLoggedIn req (Some u) =
       [if params_username req = Some (username u) then Next
        else NextErr (ForbiddenError ''You do not have permission to perform this action.''),
        Next]"
  by (auto simp add: ensureLoggedIn_def ensureAuthenticatedAsSelf_def)

theorem self_check_path_calls_next_twice_witness:
  "ensureLoggedIn \<lparr>req_method = ''PATCH'', originalUrl = ''/jobs/1'', params_username = None\<rparr>
       (Some \<lparr>username = ''u1'', isAdmin = False\<rparr>)
     = [NextErr (ForbiddenError ''You do not have permission to perform this action.''), Next]
   \<and> ensureLoggedIn \<lparr>req_method = ''PATCH'', originalUrl = ''/users/u1'', params_username = Some ''u1''\<rparr>
       (Some \<lparr>username = ''u1'', isAdmin = False\<rparr>)
     = [Next, Next]"
proof -
  have a: "\<not> isAdminActionRoute \<lparr>req_method = ''PATCH'', originalUrl = ''/jobs/1'', params_username = None\<rparr>"
    by (simp add: eval_route)
  have b: "\<not> isAdminActionRoute \<lparr>req_method = ''PATCH'', originalUrl = ''/users/u1'', params_username = Some ''u1''\<rparr>"
    by (simp add: eval_route)
  show ?thesis
    using a b
      self_check_path_calls_next_twice
        [of "\<lparr>req_method = ''PATCH'', originalUrl = ''/jobs/1'', params_username = None\<rparr>"
            "\<lparr>username = ''u1'', isAdmin = False\<rparr>"]
      self_check_path_calls_next_twice
        [of "\<lparr>req_method = ''PATCH'', originalUrl = ''/users/u1'', params_username = Some ''u1''\<rparr>"
            "\<lparr>username = ''u1'', isAdmin = False\<rparr>"]
    by simp
qed

section \<open>Partial updates\<close>




text \<open>
  C7. An empty payload: \<^verbatim>\<open>sqlForPartialUpdate\<close> throws the BadRequest error "No data"
  (the BadInput kind), and \<^verbatim>\<open>Company.update\<close> and \<^verbatim>\<open>Job.update\<close> end with it before
  they call the executor: the connection they return is the one they were given,
  nothing sent and nothing stored.
\<close>

theorem empty_update_payload_is_refused_unsent:
  "sqlForPartialUpdate [] jsToSql = Inl (BadRequestError ''No data'')
   \<and> failure_kind_of (BadRequestError ''No data'') = BadInput
   \<and> Company_update exec c handle [] = (Inl (BadRequestError ''No data''), c)
   \<and> Job_update exec c ident [] = (Inl (BadRequestError ''No data''), c)"
  by (simp add: sqlForPartialUpdate_def Company_update_def Job_update_def)

section \<open>Creating a duplicate\<close>

text \<open>
  C8, as the code has it. When the duplicate check of \<^verbatim>\<open>Company.create\<close> (of
  \<^verbatim>\<open>Job.create\<close>) finds a row, the call fails with a BadRequest error, whose message
  names the handle (the title), and the check is the only statement sent: the insert is
  never sent, and the stored state is the one the check left.
\<close>

theorem create_duplicate_is_BadRequest_and_sends_no_insert:
  "(exec company_duplicate_sql [js_get dat ''handle''] (store c) = (Inr (r # rows), s) \<longrightarrow>
      Company_create exec c dat =
        (Inl (BadRequestError (''Duplicate company: '' @ js_to_string (js_get dat ''handle''))),
         \<lparr>store = s, sent = sent c @ [(company_duplicate_sql, [js_get dat ''handle''])]\<rparr>))
   \<and> (exec job_duplicate_sql [js_get dat ''title'', js_get dat ''companyHandle''] (store c)
         = (Inr (r # rows), s) \<longrightarrow>
      Job_create exec c dat =
        (Inl (BadRequestError (''Duplicate job: '' @ js_to_string (js_get dat ''title''))),
         \<lparr>store = s,
            sent = sent c @ [(job_duplicate_sql, [js_get dat ''title'', js_get dat ''companyHandle''])]\<rparr>))"
  by (simp add: Company_create_def Job_create_def db_query_def first_row_def Let_def)

theorem create_duplicate_is_BadRequest_and_sends_no_insert_witness:
  "Company_create mem_exec example_conn [(''handle'', JStr ''c1''), (''name'', JStr ''Other'')] =
     (Inl (BadRequestError ''Duplicate company: c1''),
      \<lparr>store = store example_conn, sent = [(company_duplicate_sql, [JStr ''c1''])]\<rparr>)
   \<and> Job_create mem_exec example_conn
        [(''title'', JStr ''j1''), (''salary'', JNum 10), (''companyHandle'', JStr ''c1'')] =
     (Inl (BadRequestError ''Duplicate job: j1''),
      \<lparr>store = store example_conn, sent = [(job_duplicate_sql, [JStr ''j1'', JStr ''c1''])]\<rparr>)"
  using mem_exec_company_duplicate mem_exec_job_duplicate
    create_duplicate_is_BadRequest_and_sends_no_insert
      [of mem_exec "[(''handle'', JStr ''c1''), (''name'', JStr ''Other'')]" example_conn
          "[(''handle'', JStr ''c1'')]" "[]" "store example_conn"]
    create_duplicate_is_BadRequest_and_sends_no_insert
      [of mem_exec "[(''title'', JStr ''j1''), (''salary'', JNum 10), (''companyHandle'', JStr ''c1'')]"
          example_conn "[(''id'', JNum 1)]" "[]" "store example_conn"]
  by (simp add: js_get_def example_conn_def)

text \<open>
  C8, as the claim has it, fails: the error of a duplicate is of the class of the
  empty payload's error, the BadInput kind, not a Conflict.
\<close>

theorem create_duplicate_is_not_Conflict:
  "fst (Company_create mem_exec example_conn [(''handle'', JStr ''c1''), (''name'', JStr ''Other'')])
     = Inl (BadRequestError ''Duplicate company: c1'')
   \<and> failure_kind_of (BadRequestError ''Duplicate company: c1'') = BadInput
   \<and> failure_kind_of (BadRequestError ''Duplicate company: c1'') \<noteq> Conflict"
  using mem_exec_company_duplicate
  by (simp add: Company_create_def db_query_def first_row_def js_get_def)

end
